theory Spec2Isabelle
  imports Main "HOL-Library.Sublist"
begin

section \<open>ConfigTexturePatcher (add\_textures\_to\_ron.py)\<close>

subsection \<open>Strings, characters and the two regular expressions\<close>

text \<open>
  Python strings are modelled as \<^typ>\<open>string\<close>; a character is one code point below 256.
  \<open>isspace\<close> is the whitespace class shared by the regular expression atom \<open>\s\<close> and by
  \<open>str.lstrip()\<close> on such code points: TAB, LF, VT, FF, CR, the separators FS, GS, RS, US,
  the space, NEL and the no-break space.
\<close>

type_synonym path = string

definition isspace :: "char \<Rightarrow> bool" where
  "isspace c \<longleftrightarrow> c \<in> {CHR 0x09, CHR 0x0A, CHR 0x0B, CHR 0x0C, CHR 0x0D,
                     CHR 0x1C, CHR 0x1D, CHR 0x1E, CHR 0x1F, CHR 0x20, CHR 0x85, CHR 0xA0}"

definition lstrip :: "string \<Rightarrow> string" where
  "lstrip s = dropWhile isspace s"

text \<open>A literal piece of a pattern, matched at the start of the text; the result is the rest.\<close>

fun match_literal :: "string \<Rightarrow> string \<Rightarrow> string option" where
  "match_literal [] s = Some s"
| "match_literal (p # ps) [] = None"
| "match_literal (p # ps) (c # cs) = (if p = c then match_literal ps cs else None)"

text \<open>
  \<open>re.match(r'\s*name:\s*"([^"]+)"', line)\<close>, returning \<open>group(1)\<close>. The match is anchored at the
  start of the line. No whitespace character is \<open>n\<close> or a double quote and the class
  \<open>[^"]\<close> excludes the closing quote, so each greedy repetition has one possible extent:
  all leading whitespace, then the literal, all whitespace, the opening quote, the longest
  run of non-quote characters (at least one), and the closing quote.
\<close>

definition name_match :: "string \<Rightarrow> string option" where
  "name_match line =
     (case match_literal ''name:'' (dropWhile isspace line) of
        None \<Rightarrow> None
      | Some r \<Rightarrow>
          (case dropWhile isspace r of
             [] \<Rightarrow> None
           | q # t \<Rightarrow>
               if q = CHR 0x22 \<and> takeWhile (\<lambda>c. c \<noteq> CHR 0x22) t \<noteq> []
                  \<and> dropWhile (\<lambda>c. c \<noteq> CHR 0x22) t \<noteq> []
               then Some (takeWhile (\<lambda>c. c \<noteq> CHR 0x22) t)
               else None))"

text \<open>\<open>re.match(r'\s*rotation_period:', line)\<close>, as a truth value.\<close>

definition rotation_match :: "string \<Rightarrow> bool" where
  "rotation_match line \<longleftrightarrow> match_literal ''rotation_period:'' (dropWhile isspace line) \<noteq> None"

subsection \<open>The texture table\<close>

definition TEXTURE_MAPPING :: "(string \<times> string) list" where
  "TEXTURE_MAPPING =
    [(''Sol'', ''textures/celestial/stars/sun_2k.jpg''),
     (''Mercury'', ''textures/celestial/planets/mercury_2k.jpg''),
     (''Venus'', ''textures/celestial/planets/venus_atmosphere_2k.jpg''),
     (''Earth'', ''textures/celestial/planets/earth_2k.jpg''),
     (''Mars'', ''textures/celestial/planets/mars_2k.jpg''),
     (''Jupiter'', ''textures/celestial/planets/jupiter_2k.jpg''),
     (''Saturn'', ''textures/celestial/planets/saturn_2k.jpg''),
     (''Uranus'', ''textures/celestial/planets/uranus_2k.jpg''),
     (''Neptune'', ''textures/celestial/planets/neptune_2k.jpg''),
     (''Pluto'', ''textures/celestial/planets/pluto_1k.jpg''),
     (''Ceres'', ''textures/celestial/planets/ceres_1k.jpg''),
     (''Eris'', ''textures/celestial/planets/eris_1k.jpg''),
     (''Moon'', ''textures/celestial/moons/moon_2k.jpg''),
     (''Io'', ''textures/celestial/moons/io_1k.jpg''),
     (''Europa'', ''textures/celestial/moons/europa_1k.jpg''),
     (''Ganymede'', ''textures/celestial/moons/ganymede_1k.jpg''),
     (''Callisto'', ''textures/celestial/moons/callisto_1k.jpg''),
     (''Titan'', ''textures/celestial/moons/titan_1k.jpg''),
     (''Rhea'', ''textures/celestial/moons/rhea_1k.jpg''),
     (''Iapetus'', ''textures/celestial/moons/iapetus_1k.jpg''),
     (''Dione'', ''textures/celestial/moons/dione_1k.jpg''),
     (''Tethys'', ''textures/celestial/moons/tethys_1k.jpg''),
     (''Enceladus'', ''textures/celestial/moons/enceladus_1k.jpg'')]"

text \<open>The dictionary read through \<open>in\<close> and \<open>[]\<close>; its keys are pairwise distinct.\<close>

definition texture_of :: "string \<rightharpoonup> string" where
  "texture_of = map_of TEXTURE_MAPPING"

subsection \<open>The scan over the lines\<close>

text \<open>
  The local variables of \<open>process_ron_file\<close> that the loop updates. \<open>printed\<close> collects the
  arguments of the \<open>print\<close> calls made inside the loop, one entry per call.
  \<open>bodies_updated\<close> starts at 0 and is only incremented, so it is a natural number.
\<close>

record scan_state =
  output_lines :: "string list"
  current_body_name :: "string option"
  texture_added :: bool
  bodies_updated :: nat
  printed :: "string list"

text \<open>The line built at lines 79 to 81 of the script.\<close>

definition texture_line :: "string \<Rightarrow> string \<Rightarrow> string" where
  "texture_line line texture_path =
     (let indent = length line - length (lstrip line)
      in replicate indent CHR '' '' @ ''texture: Some(\"'' @ texture_path @ ''\"),\<newline>'')"

text \<open>
  One iteration of the \<open>for\<close> loop. The condition \<open>if current_body_name\<close> is Python
  truthiness: false for \<open>None\<close> and for the empty string.
\<close>

definition loop_body :: "(string \<rightharpoonup> string) \<Rightarrow> scan_state \<Rightarrow> string \<Rightarrow> scan_state" where
  "loop_body m s line =
     (let s1 = (case name_match line of
                  Some n \<Rightarrow> s\<lparr>current_body_name := Some n, texture_added := False\<rparr>
                | None \<Rightarrow> s)
      in case current_body_name s1 of
           None \<Rightarrow> s1\<lparr>output_lines := output_lines s1 @ [line]\<rparr>
         | Some name \<Rightarrow>
             if name \<noteq> [] \<and> \<not> texture_added s1 \<and> rotation_match line then
               let s2 = s1\<lparr>output_lines := output_lines s1 @ [line]\<rparr>;
                   s3 = (case m name of
                           Some texture_path \<Rightarrow>
                             s2\<lparr>output_lines := output_lines s2 @ [texture_line line texture_path],
                                texture_added := True,
                                bodies_updated := bodies_updated s2 + 1,
                                printed := printed s2 @ [''Added texture for: '' @ name]\<rparr>
                         | None \<Rightarrow> s2)
               in s3\<lparr>current_body_name := None\<rparr>
             else s1\<lparr>output_lines := output_lines s1 @ [line]\<rparr>)"

fun loop :: "(string \<rightharpoonup> string) \<Rightarrow> scan_state \<Rightarrow> string list \<Rightarrow> scan_state" where
  "loop m s [] = s"
| "loop m s (line # lines) = loop m (loop_body m s line) lines"

definition init_state :: scan_state where
  "init_state = \<lparr>output_lines = [], current_body_name = None, texture_added = False,
                  bodies_updated = 0, printed = []\<rparr>"

subsection \<open>Files, console and the whole function\<close>

text \<open>
  A file is the text stored in it. Both files are opened in text mode with the default
  newline handling: on reading, every \<open>CR LF\<close> pair and every other \<open>CR\<close> becomes one
  \<open>LF\<close> (\<open>universal_newlines\<close>); \<open>readlines\<close> then cuts the text after every line feed
  and keeps the line feed. On writing, \<open>writelines\<close> writes the concatenation of the
  lines; a line feed is written as the platform's line separator, which is the line feed
  itself on the POSIX systems modelled here.
\<close>

fun universal_newlines :: "string \<Rightarrow> string" where
  "universal_newlines [] = []"
| "universal_newlines [c] = (if c = CHR 0x0D then [CHR ''\<newline>''] else [c])"
| "universal_newlines (c # d # cs) =
     (if c = CHR 0x0D then
        (if d = CHR ''\<newline>'' then CHR ''\<newline>'' # universal_newlines cs
         else CHR ''\<newline>'' # universal_newlines (d # cs))
      else c # universal_newlines (d # cs))"

fun split_lines :: "string \<Rightarrow> string list" where
  "split_lines [] = []"
| "split_lines (c # cs) =
     (if c = CHR ''\<newline>'' then [c] # split_lines cs
      else (case split_lines cs of [] \<Rightarrow> [[c]] | l # ls \<Rightarrow> (c # l) # ls))"

definition readlines :: "string \<Rightarrow> string list" where
  "readlines text = split_lines (universal_newlines text)"

definition writelines :: "string list \<Rightarrow> string" where
  "writelines ls = concat ls"


text \<open>Decimal rendering of a count inside an f-string.\<close>

definition digit_char :: "nat \<Rightarrow> char" where
  "digit_char d = ''0123456789'' ! d"

fun str_nat :: "nat \<Rightarrow> string" where
  "str_nat n = (if n < 10 then [digit_char n] else str_nat (n div 10) @ [digit_char (n mod 10)])"

declare str_nat.simps [simp del]

datatype error = FileNotFoundError path | PermissionError path

datatype pyval = PyNone | PyInt int

text \<open>
  The world outside the function: the files by path, the paths that cannot be opened for
  writing, and the lines printed so far.
\<close>

record world =
  files :: "path \<rightharpoonup> string"
  unwritable :: "path set"
  stdout :: "string list"

text \<open>
  \<open>process_ron_file\<close> has no \<open>return\<close> statement, so a call that raises nothing evaluates
  to \<open>None\<close>. A failing \<open>open\<close> raises and ends the call; what was printed before stays printed.
\<close>

definition process_ron_file :: "path \<Rightarrow> path \<Rightarrow> world \<Rightarrow> (error + pyval) \<times> world" where
  "process_ron_file input_file output_file w =
     (case files w input_file of
        None \<Rightarrow> (Inl (FileNotFoundError input_file), w)
      | Some text \<Rightarrow>
          let lines = readlines text;
              s = loop texture_of init_state lines;
              w1 = w\<lparr>stdout := stdout w @ printed s\<rparr>
          in if output_file \<in> unwritable w1 then (Inl (PermissionError output_file), w1)
             else
               (Inr PyNone,
                w1\<lparr>files := (files w1)(output_file \<mapsto> writelines (output_lines s)),
                   stdout := stdout w1 @
                     [''\<newline>Updated '' @ str_nat (bodies_updated s) @ '' celestial bodies with texture paths'',
                      ''Output written to: '' @ output_file]\<rparr>))"

text \<open>
  The script's entry point: the input is first restored from the backup when there is one.
\<close>

definition main_patch :: "world \<Rightarrow> (error + pyval) \<times> world" where
  "main_patch w =
     (let input_file = ''assets/data/solar_system.ron'';
          output_file = ''assets/data/solar_system.ron'';
          backup_file = ''assets/data/solar_system.ron.backup''
      in case (case files w backup_file of
                 None \<Rightarrow> Inr w
               | Some b \<Rightarrow>
                   if input_file \<in> unwritable w then Inl (PermissionError input_file)
                   else Inr (w\<lparr>files := (files w)(input_file \<mapsto> b),
                               stdout := stdout w @ [''Restored from backup: '' @ backup_file]\<rparr>)) of
           Inl e \<Rightarrow> (Inl e, w)
         | Inr w1 \<Rightarrow>
             (case process_ron_file input_file output_file w1 of
                (Inl e, w2) \<Rightarrow> (Inl e, w2)
              | (Inr v, w2) \<Rightarrow> (Inr PyNone, w2\<lparr>stdout := stdout w2 @ [''Done!'']\<rparr>)))"

section \<open>PlaceholderTextureGenerator (generate\_placeholders.py)\<close>

subsection \<open>Images and the libraries the script calls\<close>

text \<open>
  An RGB pixel is three integers and an image is its size with the pixels in row-major
  order: the pixel at \<open>(x, y)\<close> is at index \<open>y * width + x\<close>. Sizes are natural numbers.
  The channel values of a base colour are taken to lie in 0..255, as every call in the
  script passes them.
\<close>

type_synonym pixel = "int \<times> int \<times> int"

record image =
  img_width :: nat
  img_height :: nat
  img_pixels :: "pixel list"

text \<open>
  The script calls the modules \<open>random\<close> and \<open>PIL\<close> and the built-in \<open>hash\<close>; they are
  not part of the repository and enter as parameters. \<open>'g\<close> is the state of the global
  generator of \<open>random\<close>: \<open>rng_seed s g\<close> is the state after \<open>random.seed(s)\<close> in state \<open>g\<close>,
  \<open>rng_randint a b g\<close> the result of \<open>random.randint(a, b)\<close> and the state after it.
  \<open>gaussian_blur\<close> is \<open>img.filter(ImageFilter.GaussianBlur(radius=1))\<close>, \<open>jpeg_encode\<close> the
  bytes that \<open>img.save(path, 'JPEG', quality=85)\<close> writes, \<open>py_hash\<close> the function \<open>hash\<close> on
  strings in the running interpreter.
\<close>

record 'g library =
  rng_seed :: "int \<Rightarrow> 'g \<Rightarrow> 'g"
  rng_randint :: "int \<Rightarrow> int \<Rightarrow> 'g \<Rightarrow> int \<times> 'g"
  gaussian_blur :: "image \<Rightarrow> image"
  jpeg_encode :: "image \<Rightarrow> string"
  py_hash :: "string \<Rightarrow> int"

text \<open>
  What the documentation of \<open>random\<close> promises: seeding with an integer fixes the state
  whatever it was before, and \<open>randint(a, b)\<close> lies between \<open>a\<close> and \<open>b\<close>.
\<close>

definition seed_resets :: "'g library \<Rightarrow> bool" where
  "seed_resets L \<longleftrightarrow> (\<forall>s g g'. rng_seed L s g = rng_seed L s g')"

definition randint_in_range :: "'g library \<Rightarrow> bool" where
  "randint_in_range L \<longleftrightarrow>
     (\<forall>a b g. a \<le> b \<longrightarrow> a \<le> fst (rng_randint L a b g) \<and> fst (rng_randint L a b g) \<le> b)"

subsection \<open>create\_rocky\_texture\<close>

text \<open>The tuple assigned to \<open>pixels[x, y]\<close> at lines 24 to 28.\<close>

definition add_noise :: "pixel \<Rightarrow> int \<Rightarrow> pixel" where
  "add_noise px noise =
     (case px of (r, g, b) \<Rightarrow>
        (max 0 (min 255 (r + noise)), max 0 (min 255 (g + noise)), max 0 (min 255 (b + noise))))"

text \<open>
  The body of the inner loop at \<open>(x, y)\<close>, on the pixel data and the generator state. The
  index is below \<open>width * height\<close> whenever \<open>x < width\<close> and \<open>y < height\<close>, as the two
  \<open>range\<close> loops have it.
\<close>

definition noise_pixel :: "'g library \<Rightarrow> nat \<Rightarrow> nat \<Rightarrow> nat \<Rightarrow> pixel list \<times> 'g \<Rightarrow> pixel list \<times> 'g" where
  "noise_pixel L width y x st =
     (case st of (pixels, g) \<Rightarrow>
        (case rng_randint L (- 30) 30 g of (noise, g') \<Rightarrow>
           (pixels[y * width + x := add_noise (pixels ! (y * width + x)) noise], g')))"

text \<open>\<open>for x in range(width)\<close> and \<open>for y in range(height)\<close>.\<close>

definition noise_row :: "'g library \<Rightarrow> nat \<Rightarrow> nat \<Rightarrow> pixel list \<times> 'g \<Rightarrow> pixel list \<times> 'g" where
  "noise_row L width y st = fold (noise_pixel L width y) [0..<width] st"

definition noise_rows :: "'g library \<Rightarrow> nat \<Rightarrow> nat \<Rightarrow> pixel list \<times> 'g \<Rightarrow> pixel list \<times> 'g" where
  "noise_rows L width height st = fold (noise_row L width) [0..<height] st"

definition create_rocky_texture ::
    "'g library \<Rightarrow> nat \<Rightarrow> nat \<Rightarrow> pixel \<Rightarrow> int \<Rightarrow> 'g \<Rightarrow> image \<times> 'g" where
  "create_rocky_texture L width height base_color seed g0 =
     (let g1 = rng_seed L seed g0;
          img = \<lparr>img_width = width, img_height = height,
                 img_pixels = replicate (width * height) base_color\<rparr>
      in case noise_rows L width height (img_pixels img, g1) of
           (pixels, g2) \<Rightarrow> (gaussian_blur L (img\<lparr>img_pixels := pixels\<rparr>), g2))"

text \<open>
  The first \<open>k\<close> results of \<open>random.randint(-30, 30)\<close> from state \<open>g\<close>, and the state after
  them: the noise deltas of the first \<open>k\<close> pixels in row-major order.
\<close>

fun draws :: "'g library \<Rightarrow> nat \<Rightarrow> 'g \<Rightarrow> int list \<times> 'g" where
  "draws L 0 g = ([], g)"
| "draws L (Suc k) g =
     (case rng_randint L (- 30) 30 g of (n, g1) \<Rightarrow>
        (case draws L k g1 of (ns, g2) \<Rightarrow> (n # ns, g2)))"

text \<open>
  The pixel data and the generator state once the first \<open>k\<close> of \<open>N\<close> pixels have been
  processed: the invariant of the two loops.
\<close>

definition after_pixels :: "'g library \<Rightarrow> nat \<Rightarrow> pixel \<Rightarrow> 'g \<Rightarrow> nat \<Rightarrow> pixel list \<times> 'g" where
  "after_pixels L N base g k =
     (map (add_noise base) (fst (draws L k g)) @ replicate (N - k) base, snd (draws L k g))"

subsection \<open>create\_moon\_texture and the script\<close>

text \<open>
  The world of the generator script: the files and the console of the patcher's world,
  the state of the global random generator and the directories made so far.
\<close>

record 'g gen_world = world +
  rng :: 'g
  dirs :: "path set"

text \<open>\<open>os.path.dirname\<close> on POSIX paths.\<close>

definition dirname :: "path \<Rightarrow> path" where
  "dirname p =
     (let head = rev (dropWhile (\<lambda>c. c \<noteq> CHR ''/'') (rev p))
      in if head \<noteq> [] \<and> head \<noteq> replicate (length head) CHR ''/''
         then rev (dropWhile (\<lambda>c. c = CHR ''/'') (rev head)) else head)"

text \<open>\<open>os.makedirs(d, exist_ok=True)\<close>; the empty path raises \<open>FileNotFoundError\<close>.\<close>

definition makedirs :: "path \<Rightarrow> 'g gen_world \<Rightarrow> error + 'g gen_world" where
  "makedirs d w = (if d = [] then Inl (FileNotFoundError d) else Inr (w\<lparr>dirs := insert d (dirs w)\<rparr>))"

text \<open>
  The check mark printed at line 47 is written as its three UTF-8 bytes.
\<close>

definition create_moon_texture ::
    "'g library \<Rightarrow> path \<Rightarrow> nat \<Rightarrow> nat \<Rightarrow> pixel \<Rightarrow> string \<Rightarrow> 'g gen_world \<Rightarrow> error + 'g gen_world" where
  "create_moon_texture L output_path width height color_tuple name w =
     (let w1 = w\<lparr>stdout := stdout w @ [''Creating placeholder texture for '' @ name @ ''...'']\<rparr>
      in case makedirs (dirname output_path) w1 of
           Inl e \<Rightarrow> Inl e
         | Inr w2 \<Rightarrow>
             (case create_rocky_texture L width height color_tuple (py_hash L name) (rng w2) of
                (img, g) \<Rightarrow>
                  if output_path \<in> unwritable w2 then Inl (PermissionError output_path)
                  else Inr (w2\<lparr>rng := g,
                              files := (files w2)(output_path \<mapsto> jpeg_encode L img),
                              stdout := stdout w2 @
                                [[CHR 0xE2, CHR 0x9C, CHR 0x93] @ '' Created '' @ output_path
                                   @ '' ('' @ str_nat width @ ''x'' @ str_nat height @ '')'']\<rparr>)))"

definition moons_1k :: "(path \<times> string \<times> pixel) list" where
  "moons_1k =
    [(''celestial/moons/io_1k.jpg'', ''Io'', (180, 150, 100)),
     (''celestial/moons/europa_1k.jpg'', ''Europa'', (200, 190, 180)),
     (''celestial/moons/ganymede_1k.jpg'', ''Ganymede'', (140, 130, 120)),
     (''celestial/moons/callisto_1k.jpg'', ''Callisto'', (100, 95, 90)),
     (''celestial/moons/titan_1k.jpg'', ''Titan'', (180, 140, 100)),
     (''celestial/moons/enceladus_1k.jpg'', ''Enceladus'', (240, 240, 240)),
     (''celestial/moons/rhea_1k.jpg'', ''Rhea'', (200, 195, 190)),
     (''celestial/moons/iapetus_1k.jpg'', ''Iapetus'', (150, 145, 140)),
     (''celestial/moons/dione_1k.jpg'', ''Dione'', (210, 205, 200)),
     (''celestial/moons/tethys_1k.jpg'', ''Tethys'', (220, 215, 210))]"

definition moons_2k :: "(path \<times> string \<times> pixel) list" where
  "moons_2k =
    [(''celestial/moons/phobos_2k.jpg'', ''Phobos'', (120, 110, 100)),
     (''celestial/moons/deimos_2k.jpg'', ''Deimos'', (140, 130, 120)),
     (''celestial/moons/triton_2k.jpg'', ''Triton'', (210, 200, 190)),
     (''celestial/moons/miranda_2k.jpg'', ''Miranda'', (180, 175, 170)),
     (''celestial/moons/mimas_2k.jpg'', ''Mimas'', (210, 205, 200)),
     (''celestial/moons/phoebe_2k.jpg'', ''Phoebe'', (80, 75, 70))]"

definition asteroids_2k :: "(path \<times> string \<times> pixel) list" where
  "asteroids_2k = [(''celestial/asteroids/vesta_2k.jpg'', ''Vesta'', (160, 150, 140))]"

definition dwarf_planets_2k :: "(path \<times> string \<times> pixel) list" where
  "dwarf_planets_2k = [(''celestial/planets/pluto_2k.jpg'', ''Pluto'', (190, 170, 150))]"

text \<open>
  One of the four loops \<open>for path, name, color in ...: create_moon_texture(...)\<close>; an
  exception ends the run.
\<close>

fun create_all ::
    "'g library \<Rightarrow> nat \<Rightarrow> nat \<Rightarrow> (path \<times> string \<times> pixel) list \<Rightarrow> 'g gen_world \<Rightarrow> error + 'g gen_world" where
  "create_all L width height [] w = Inr w"
| "create_all L width height ((path, name, color) # specs) w =
     (case create_moon_texture L path width height color name w of
        Inl e \<Rightarrow> Inl e
      | Inr w' \<Rightarrow> create_all L width height specs w')"

definition say :: "string list \<Rightarrow> 'g gen_world \<Rightarrow> 'g gen_world" where
  "say msgs w = w\<lparr>stdout := stdout w @ msgs\<rparr>"

text \<open>The statements of the module in their order, from line 49 on.\<close>

definition generate_placeholders :: "'g library \<Rightarrow> 'g gen_world \<Rightarrow> error + 'g gen_world" where
  "generate_placeholders L w =
     (case makedirs ''celestial/moons'' w of Inl e \<Rightarrow> Inl e | Inr w1 \<Rightarrow>
      case makedirs ''celestial/asteroids'' w1 of Inl e \<Rightarrow> Inl e | Inr w2 \<Rightarrow>
      case makedirs ''celestial/planets'' w2 of Inl e \<Rightarrow> Inl e | Inr w3 \<Rightarrow>
      case create_all L 1024 512 moons_1k
             (say [replicate 50 CHR ''='', ''Generating Placeholder Textures'',
                   replicate 50 CHR ''='', ''''] w3) of Inl e \<Rightarrow> Inl e | Inr w4 \<Rightarrow>
      case create_all L 2048 1024 moons_2k w4 of Inl e \<Rightarrow> Inl e | Inr w5 \<Rightarrow>
      case create_all L 2048 1024 asteroids_2k w5 of Inl e \<Rightarrow> Inl e | Inr w6 \<Rightarrow>
      case create_all L 2048 1024 dwarf_planets_2k w6 of Inl e \<Rightarrow> Inl e | Inr w7 \<Rightarrow>
        Inr (say ['''', replicate 50 CHR ''='', ''All placeholder textures generated successfully!'',
                  replicate 50 CHR ''='', '''', ''Note: These are placeholder textures.'',
                  ''The procedural variation system will apply additional'',
                  ''color and material variations to make them look unique.''] w7))"

subsection \<open>A library to run the definitions on\<close>

text \<open>
  A small stand-in for the libraries: the generator state is a counter, seeding sets it
  from the seed, \<open>randint\<close> walks through the interval, the blur and the encoder keep
  every pixel.
\<close>

definition counter_library :: "nat library" where
  "counter_library =
     \<lparr>rng_seed = (\<lambda>s g. nat \<bar>s\<bar>),
      rng_randint = (\<lambda>a b g. (a + int g mod (b - a + 1), Suc g)),
      gaussian_blur = (\<lambda>img. img),
      jpeg_encode = (\<lambda>img. concat (map (\<lambda>(r, g, b). [char_of r, char_of g, char_of b]) (img_pixels img))),
      py_hash = (\<lambda>s. int (length s))\<rparr>"

section \<open>Properties of the patcher\<close>

subsection \<open>Auxiliary facts about the scan and the files\<close>

lemma name_match_nonempty: "name_match l = Some X \<Longrightarrow> X \<noteq> []"
  by (auto simp: name_match_def split: option.splits list.splits if_splits)

lemma name_match_not_rotation: "name_match l = Some X \<Longrightarrow> \<not> rotation_match l"
  by (cases "dropWhile isspace l")
     (auto simp: name_match_def rotation_match_def split: option.splits if_splits)

lemma loop_append: "loop m s (xs @ ys) = loop m (loop m s xs) ys"
  by (induction xs arbitrary: s) auto

lemma loop_body_name:
  assumes "name_match l = Some X"
  shows "loop_body m s l = s\<lparr>output_lines := output_lines s @ [l],
                              current_body_name := Some X, texture_added := False\<rparr>"
  using assms name_match_not_rotation[OF assms]
  by (simp add: loop_body_def)

lemma loop_body_plain:
  assumes "name_match l = None" "\<not> rotation_match l"
  shows "loop_body m s l = s\<lparr>output_lines := output_lines s @ [l]\<rparr>"
  using assms by (simp add: loop_body_def split: option.splits)

lemma loop_body_no_cursor:
  assumes "name_match l = None" "current_body_name s = None"
  shows "loop_body m s l = s\<lparr>output_lines := output_lines s @ [l]\<rparr>"
  using assms by (simp add: loop_body_def split: option.splits)

lemma loop_body_anchor_mapped:
  assumes "name_match l = None" "rotation_match l" "current_body_name s = Some X" "X \<noteq> []"
    "\<not> texture_added s" "m X = Some p"
  shows "loop_body m s l = s\<lparr>output_lines := output_lines s @ [l, texture_line l p],
            current_body_name := None, texture_added := True,
            bodies_updated := bodies_updated s + 1,
            printed := printed s @ [''Added texture for: '' @ X]\<rparr>"
  using assms by (simp add: loop_body_def)

lemma loop_body_anchor_unmapped:
  assumes "name_match l = None" "rotation_match l" "current_body_name s = Some X" "X \<noteq> []"
    "\<not> texture_added s" "m X = None"
  shows "loop_body m s l = s\<lparr>output_lines := output_lines s @ [l], current_body_name := None\<rparr>"
  using assms by (simp add: loop_body_def)

lemma rotation_not_name: "rotation_match l \<Longrightarrow> name_match l = None"
  using name_match_not_rotation by (cases "name_match l") auto

lemma loop_plain:
  assumes "\<forall>l\<in>set ls. name_match l = None \<and> \<not> rotation_match l"
  shows "loop m s ls = s\<lparr>output_lines := output_lines s @ ls\<rparr>"
  using assms by (induction ls arbitrary: s) (auto simp: loop_body_plain)

lemma loop_no_cursor:
  assumes "\<forall>l\<in>set ls. name_match l = None" "current_body_name s = None"
  shows "loop m s ls = s\<lparr>output_lines := output_lines s @ ls\<rparr>"
  using assms by (induction ls arbitrary: s) (auto simp: loop_body_no_cursor)

lemma loop_body_emits:
  "\<exists>ins. output_lines (loop_body m s l) = output_lines s @ l # ins
     \<and> (ins = [] \<or> (rotation_match l \<and> (\<exists>k p. m k = Some p \<and> ins = [texture_line l p])))
     \<and> bodies_updated (loop_body m s l) = bodies_updated s + length ins"
  by (auto simp: loop_body_def Let_def split: option.splits)

lemma loop_emits:
  "\<exists>inss. length inss = length ls
     \<and> output_lines (loop m s ls) = output_lines s @ concat (map2 (#) ls inss)
     \<and> list_all2 (\<lambda>l ins. ins = [] \<or>
           (rotation_match l \<and> (\<exists>k p. m k = Some p \<and> ins = [texture_line l p]))) ls inss
     \<and> bodies_updated (loop m s ls) = bodies_updated s + length (concat inss)"
proof (induction ls arbitrary: s)
  case Nil
  show ?case by simp
next
  case (Cons l ls)
  obtain ins where ins:
    "output_lines (loop_body m s l) = output_lines s @ l # ins"
    "ins = [] \<or> (rotation_match l \<and> (\<exists>k p. m k = Some p \<and> ins = [texture_line l p]))"
    "bodies_updated (loop_body m s l) = bodies_updated s + length ins"
    using loop_body_emits[of m s l] by blast
  obtain inss where inss:
    "length inss = length ls"
    "output_lines (loop m (loop_body m s l) ls)
       = output_lines (loop_body m s l) @ concat (map2 (#) ls inss)"
    "list_all2 (\<lambda>l ins. ins = [] \<or>
           (rotation_match l \<and> (\<exists>k p. m k = Some p \<and> ins = [texture_line l p]))) ls inss"
    "bodies_updated (loop m (loop_body m s l) ls)
       = bodies_updated (loop_body m s l) + length (concat inss)"
    using Cons.IH[of "loop_body m s l"] by blast
  show ?case
    apply (rule exI[of _ "ins # inss"])
    using ins inss by simp
qed

lemma loop_output_starts:
  "\<exists>ys. output_lines (loop m s ls) = output_lines s @ ys
     \<and> (ls = [] \<longrightarrow> ys = []) \<and> (ls \<noteq> [] \<longrightarrow> ys \<noteq> [] \<and> hd ys = hd ls)"
proof (cases ls)
  case Nil
  then show ?thesis by simp
next
  case (Cons l ls')
  obtain ins where ins: "output_lines (loop_body m s l) = output_lines s @ l # ins"
    using loop_body_emits[of m s l] by blast
  obtain inss where "output_lines (loop m (loop_body m s l) ls')
       = output_lines (loop_body m s l) @ concat (map2 (#) ls' inss)"
    using loop_emits[of ls' m "loop_body m s l"] by blast
  with ins Cons show ?thesis by simp
qed

lemma indent_takeWhile: "length l - length (lstrip l) = length (takeWhile isspace l)"
proof -
  have "length l = length (takeWhile isspace l) + length (dropWhile isspace l)"
    by (metis length_append takeWhile_dropWhile_id)
  then show ?thesis by (simp add: lstrip_def)
qed

lemma texture_line_eq:
  "texture_line l p = replicate (length (takeWhile isspace l)) CHR '' '' @ ''texture: Some(\"'' @ p @ ''\"),\<newline>''"
  unfolding texture_line_def Let_def indent_takeWhile ..

lemma loop_record_mapped:
  assumes "name_match nl = Some X"
    and "\<forall>l\<in>set mid. name_match l = None \<and> \<not> rotation_match l"
    and "rotation_match rl" and "m X = Some p"
  shows "loop m s (nl # mid @ [rl]) =
           s\<lparr>output_lines := output_lines s @ nl # mid @ [rl, texture_line rl p],
             current_body_name := None, texture_added := True,
             bodies_updated := bodies_updated s + 1,
             printed := printed s @ [''Added texture for: '' @ X]\<rparr>"
  using assms
  by (simp add: loop_append loop_body_name loop_plain loop_body_anchor_mapped
        rotation_not_name name_match_nonempty)

lemma loop_record_unmapped:
  assumes "name_match nl = Some X"
    and "\<forall>l\<in>set mid. name_match l = None \<and> \<not> rotation_match l"
    and "rotation_match rl" and "m X = None"
  shows "loop m s (nl # mid @ [rl]) =
           s\<lparr>output_lines := output_lines s @ nl # mid @ [rl], current_body_name := None,
             texture_added := False\<rparr>"
  using assms
  by (simp add: loop_append loop_body_name loop_plain loop_body_anchor_unmapped
        rotation_not_name name_match_nonempty)



lemma loop_body_no_name_cases:
  assumes "name_match l = None"
  shows "loop_body m s l = s\<lparr>output_lines := output_lines s @ [l]\<rparr>
       \<or> (current_body_name (loop_body m s l) = None
          \<and> bodies_updated (loop_body m s l) \<le> bodies_updated s + 1
          \<and> length (output_lines (loop_body m s l))
               = length (output_lines s) + 1 + (bodies_updated (loop_body m s l) - bodies_updated s))"
  using assms by (auto simp: loop_body_def Let_def split: option.splits)

lemma loop_no_names_at_most_one:
  assumes "\<forall>l\<in>set ls. name_match l = None"
  shows "bodies_updated s \<le> bodies_updated (loop m s ls)
       \<and> bodies_updated (loop m s ls) \<le> bodies_updated s + 1
       \<and> length (output_lines (loop m s ls))
            = length (output_lines s) + length ls + (bodies_updated (loop m s ls) - bodies_updated s)"
  using assms
proof (induction ls arbitrary: s)
  case Nil
  then show ?case by simp
next
  case (Cons l ls)
  have nm: "name_match l = None" and rest: "\<forall>l\<in>set ls. name_match l = None"
    using Cons.prems by simp_all
  let ?t = "loop_body m s l"
  from loop_body_no_name_cases[OF nm, of m s]
  show ?case
  proof
    assume eq: "?t = s\<lparr>output_lines := output_lines s @ [l]\<rparr>"
    show ?thesis using Cons.IH[OF rest, of ?t] by (simp add: eq)
  next
    assume c: "current_body_name ?t = None
          \<and> bodies_updated ?t \<le> bodies_updated s + 1
          \<and> length (output_lines ?t)
               = length (output_lines s) + 1 + (bodies_updated ?t - bodies_updated s)"
    have ge: "bodies_updated s \<le> bodies_updated ?t"
      using nm by (auto simp: loop_body_def Let_def split: option.splits)
    have "loop m ?t ls = ?t\<lparr>output_lines := output_lines ?t @ ls\<rparr>"
      using loop_no_cursor[OF rest, of ?t m] c by simp
    then show ?thesis using c ge by simp
  qed
qed

lemma loop_after_anchor:
  assumes "name_match nl = Some X"
    and "\<forall>l\<in>set mid. name_match l = None \<and> \<not> rotation_match l"
    and "rotation_match rl"
  shows "current_body_name (loop m s (nl # mid @ [rl])) = None"
proof (cases "m X")
  case None
  show ?thesis
    by (subst loop_record_unmapped[where m = m and X = X]) (use assms None in simp_all)
next
  case (Some p)
  show ?thesis
    by (subst loop_record_mapped[where m = m and X = X and p = p]) (use assms Some in simp_all)
qed

lemma dropWhile_isspace_lit:
  assumes "\<forall>c\<in>set ws. isspace c" "\<not> isspace c"
  shows "dropWhile isspace (ws @ c # r) = c # r"
  using assms by (induction ws) auto

lemma name_match_empty_quotes:
  assumes "\<forall>c\<in>set ws1. isspace c" "\<forall>c\<in>set ws2. isspace c"
  shows "name_match (ws1 @ ''name:'' @ ws2 @ [CHR 0x22, CHR 0x22] @ rest) = None"
proof -
  have a: "dropWhile isspace (ws1 @ ''name:'' @ ws2 @ [CHR 0x22, CHR 0x22] @ rest)
            = ''name:'' @ ws2 @ [CHR 0x22, CHR 0x22] @ rest"
    using dropWhile_isspace_lit[OF assms(1), of "CHR ''n''"] by (simp add: isspace_def)
  have b: "dropWhile isspace (ws2 @ [CHR 0x22, CHR 0x22] @ rest) = [CHR 0x22, CHR 0x22] @ rest"
    using dropWhile_isspace_lit[OF assms(2), of "CHR 0x22"] by (simp add: isspace_def)
  show ?thesis unfolding name_match_def a using b by simp
qed

lemma rotation_match_name_prefix:
  assumes "\<forall>c\<in>set ws1. isspace c"
  shows "\<not> rotation_match (ws1 @ ''name:'' @ r)"
proof -
  have a: "dropWhile isspace (ws1 @ ''name:'' @ r) = ''name:'' @ r"
    using dropWhile_isspace_lit[OF assms, of "CHR ''n''"] by (simp add: isspace_def)
  show ?thesis unfolding rotation_match_def a by simp
qed

lemmas eval_defs = name_match_def rotation_match_def isspace_def loop_body_def texture_of_def
  TEXTURE_MAPPING_def texture_line_def lstrip_def init_state_def readlines_def


lemma split_lines_Nil_iff: "split_lines t = [] \<longleftrightarrow> t = []"
  by (cases t) (auto split: list.splits)
















lemma loop_printed_count:
  "length (printed (loop m s ls)) + bodies_updated s
     = length (printed s) + bodies_updated (loop m s ls)"
proof (induction ls arbitrary: s)
  case Nil
  show ?case by simp
next
  case (Cons l ls)
  have "length (printed (loop_body m s l)) + bodies_updated s
     = length (printed s) + bodies_updated (loop_body m s l)"
    by (auto simp: loop_body_def Let_def split: option.splits)
  with Cons.IH[of "loop_body m s l"] show ?case by simp
qed

lemma process_ron_file_ok:
  assumes "files w input_file = Some text" and "output_file \<notin> unwritable w"
  shows "process_ron_file input_file output_file w =
     (Inr PyNone,
      w\<lparr>files := (files w)(output_file \<mapsto>
            writelines (output_lines (loop texture_of init_state (readlines text)))),
        stdout := stdout w @ printed (loop texture_of init_state (readlines text)) @
          [''\<newline>Updated '' @ str_nat (bodies_updated (loop texture_of init_state (readlines text)))
             @ '' celestial bodies with texture paths'',
           ''Output written to: '' @ output_file]\<rparr>)"
  using assms by (simp add: process_ron_file_def Let_def)

section \<open>Properties of the generator\<close>

subsection \<open>Auxiliary facts about the noise loop and the run\<close>

lemma draws_length: "length (fst (draws L k g)) = k"
proof (induction k arbitrary: g)
  case 0
  show ?case by simp
next
  case (Suc k)
  obtain n g1 where r: "rng_randint L (- 30) 30 g = (n, g1)" by (cases "rng_randint L (- 30) 30 g")
  obtain ns g2 where d: "draws L k g1 = (ns, g2)" by (cases "draws L k g1")
  have "length ns = k" using Suc.IH[of g1] by (simp add: d)
  then show ?case by (simp add: r d)
qed

lemma draws_Suc_snoc:
  "draws L (Suc k) g =
     (case draws L k g of (ns, g1) \<Rightarrow>
        (case rng_randint L (- 30) 30 g1 of (n, g2) \<Rightarrow> (ns @ [n], g2)))"
proof (induction k arbitrary: g)
  case 0
  show ?case by (simp split: prod.splits)
next
  case (Suc k)
  obtain n g1 where r: "rng_randint L (- 30) 30 g = (n, g1)" by (cases "rng_randint L (- 30) 30 g")
  have "draws L (Suc (Suc k)) g = (case draws L (Suc k) g1 of (ns, g2) \<Rightarrow> (n # ns, g2))"
    by (simp add: r)
  also have "\<dots> = (case draws L (Suc k) g of (ns, g1) \<Rightarrow>
        (case rng_randint L (- 30) 30 g1 of (n, g2) \<Rightarrow> (ns @ [n], g2)))"
    unfolding Suc.IH[of g1] by (simp add: r split: prod.splits)
  finally show ?case .
qed

lemma draws_in_range:
  assumes "randint_in_range L"
  shows "\<forall>n\<in>set (fst (draws L k g)). - 30 \<le> n \<and> n \<le> 30"
proof (induction k arbitrary: g)
  case 0
  show ?case by simp
next
  case (Suc k)
  obtain n g1 where r: "rng_randint L (- 30) 30 g = (n, g1)" by (cases "rng_randint L (- 30) 30 g")
  have "- 30 \<le> fst (rng_randint L (- 30) 30 g) \<and> fst (rng_randint L (- 30) 30 g) \<le> 30"
    using assms unfolding randint_in_range_def by simp
  then have n: "- 30 \<le> n \<and> n \<le> 30" by (simp add: r)
  show ?case using Suc.IH[of g1] n by (auto simp: r split: prod.splits)
qed

lemma noise_pixel_step:
  assumes "y * width + x < N"
  shows "noise_pixel L width y x (after_pixels L N base g (y * width + x))
           = after_pixels L N base g (Suc (y * width + x))"
proof -
  let ?k = "y * width + x"
  obtain ns g1 where d: "draws L ?k g = (ns, g1)" by (cases "draws L ?k g")
  obtain n g2 where r: "rng_randint L (- 30) 30 g1 = (n, g2)" by (cases "rng_randint L (- 30) 30 g1")
  have len: "length ns = ?k" using draws_length[of L ?k g] by (simp add: d)
  have d': "draws L (Suc ?k) g = (ns @ [n], g2)"
    by (simp only: draws_Suc_snoc d r prod.case)
  have rep: "replicate (N - ?k) base = base # replicate (N - Suc ?k) base"
    using assms by (cases "N - ?k") (simp_all add: Suc_diff_Suc)
  have nth: "(map (add_noise base) ns @ replicate (N - ?k) base) ! ?k = base"
    using len assms by (simp add: nth_append)
  have upd: "(map (add_noise base) ns @ replicate (N - ?k) base)[?k := add_noise base n]
       = map (add_noise base) (ns @ [n]) @ replicate (N - Suc ?k) base"
    using len by (simp add: rep list_update_append)
  show ?thesis
    unfolding after_pixels_def noise_pixel_def d d' by (simp add: r nth upd del: replicate_Suc)
qed

lemma noise_row_steps:
  assumes "x \<le> width" "y * width + width \<le> N"
  shows "fold (noise_pixel L width y) [0..<x] (after_pixels L N base g (y * width))
           = after_pixels L N base g (y * width + x)"
  using assms(1)
proof (induction x)
  case 0
  show ?case by simp
next
  case (Suc x)
  then have "y * width + x < N" using assms(2) by simp
  from noise_pixel_step[OF this, of L base g] Suc show ?case by simp
qed

lemma noise_row_after:
  assumes "y * width + width \<le> N"
  shows "noise_row L width y (after_pixels L N base g (y * width))
           = after_pixels L N base g (Suc y * width)"
  using noise_row_steps[OF order_refl assms, of L base g]
  by (simp add: noise_row_def add.commute)

lemma noise_rows_steps:
  assumes "y \<le> height"
  shows "fold (noise_row L width) [0..<y] (after_pixels L (width * height) base g 0)
           = after_pixels L (width * height) base g (y * width)"
  using assms
proof (induction y)
  case 0
  show ?case by simp
next
  case (Suc y)
  then have "Suc y * width \<le> height * width" by (intro mult_le_mono1) simp
  then have "y * width + width \<le> width * height" by (simp add: mult.commute add.commute)
  from noise_row_after[OF this, of L base g] Suc show ?case by simp
qed

lemma noise_rows_result:
  "noise_rows L width height (replicate (width * height) base, g)
     = (map (add_noise base) (fst (draws L (width * height) g)), snd (draws L (width * height) g))"
proof -
  have "after_pixels L (width * height) base g 0 = (replicate (width * height) base, g)"
    by (simp add: after_pixels_def)
  with noise_rows_steps[where y = height and height = height and L = L and width = width
      and base = base and g = g]
  show ?thesis by (simp add: noise_rows_def after_pixels_def mult.commute)
qed

lemma create_rocky_texture_eq:
  "create_rocky_texture L width height base seed g0 =
     (gaussian_blur L \<lparr>img_width = width, img_height = height,
         img_pixels = map (add_noise base) (fst (draws L (width * height) (rng_seed L seed g0)))\<rparr>,
      snd (draws L (width * height) (rng_seed L seed g0)))"
  by (simp add: create_rocky_texture_def Let_def noise_rows_result)

lemma add_noise_clamped:
  "add_noise (r, g, b) n = (r', g', b') \<Longrightarrow>
     0 \<le> r' \<and> r' \<le> 255 \<and> 0 \<le> g' \<and> g' \<le> 255 \<and> 0 \<le> b' \<and> b' \<le> 255"
  by (auto simp: add_noise_def)

lemma counter_library_seed_resets: "seed_resets counter_library"
  by (simp add: seed_resets_def counter_library_def)

lemma counter_library_randint_in_range: "randint_in_range counter_library"
proof -
  have "a \<le> a + int g mod (b - a + 1) \<and> a + int g mod (b - a + 1) \<le> b" if "a \<le> b" for a b :: int and g :: nat
  proof -
    have "0 < b - a + 1" using that by simp
    then have "0 \<le> int g mod (b - a + 1) \<and> int g mod (b - a + 1) < b - a + 1"
      using pos_mod_sign[of "b - a + 1" "int g"] pos_mod_bound[of "b - a + 1" "int g"]
      by blast
    then show ?thesis by linarith
  qed
  then show ?thesis by (simp add: randint_in_range_def counter_library_def)
qed

lemma create_moon_texture_ok:
  assumes "create_moon_texture L path width height color name w = Inr w'"
  shows "files w' = (files w)(path \<mapsto>
           jpeg_encode L (fst (create_rocky_texture L width height color (py_hash L name) (rng w))))"
  using assms
  by (auto simp: create_moon_texture_def makedirs_def Let_def split: if_splits prod.splits)

lemma create_all_append:
  "create_all L width height (xs @ ys) w =
     (case create_all L width height xs w of
        Inl e \<Rightarrow> Inl e
      | Inr w1 \<Rightarrow> create_all L width height ys w1)"
  by (induction xs arbitrary: w) (auto split: sum.splits)

lemma create_all_files_other:
  assumes "create_all L width height specs w = Inr w'" and "p \<notin> fst ` set specs"
  shows "files w' p = files w p"
  using assms
proof (induction specs arbitrary: w)
  case Nil
  then show ?case by simp
next
  case (Cons spec specs)
  obtain path name color where spec: "spec = (path, name, color)" by (cases spec)
  from Cons.prems(1) obtain w1 where
    w1: "create_moon_texture L path width height color name w = Inr w1"
    and rest: "create_all L width height specs w1 = Inr w'"
    by (auto simp: spec split: sum.splits)
  have "p \<noteq> path" using Cons.prems(2) by (auto simp: spec)
  then have "files w1 p = files w p" using create_moon_texture_ok[OF w1] by simp
  moreover have "files w' p = files w1 p"
    using Cons.IH[OF rest] Cons.prems(2) by simp
  ultimately show ?case by simp
qed

lemma create_rocky_texture_state_free:
  assumes "seed_resets L"
  shows "create_rocky_texture L width height base seed g = create_rocky_texture L width height base seed g'"
proof -
  have "rng_seed L seed g = rng_seed L seed g'"
    using assms unfolding seed_resets_def by blast
  then show ?thesis by (simp add: create_rocky_texture_eq)
qed

lemma create_moon_texture_succeeds:
  assumes "dirname path \<noteq> []" and "path \<notin> unwritable w"
  shows "\<exists>w'. create_moon_texture L path width height color name w = Inr w'
            \<and> unwritable w' = unwritable w"
  using assms
  by (auto simp: create_moon_texture_def makedirs_def Let_def split: prod.splits)

lemma create_all_succeeds:
  assumes "\<forall>spec\<in>set specs. dirname (fst spec) \<noteq> [] \<and> fst spec \<notin> unwritable w"
  shows "\<exists>w'. create_all L width height specs w = Inr w' \<and> unwritable w' = unwritable w"
  using assms
proof (induction specs arbitrary: w)
  case Nil
  show ?case by simp
next
  case (Cons spec specs)
  obtain path name color where spec: "spec = (path, name, color)" by (cases spec)
  from Cons.prems have "dirname path \<noteq> []" "path \<notin> unwritable w" by (simp_all add: spec)
  from create_moon_texture_succeeds[OF this, of L width height color name]
  obtain w1 where w1: "create_moon_texture L path width height color name w = Inr w1"
    "unwritable w1 = unwritable w" by blast
  have "\<forall>spec\<in>set specs. dirname (fst spec) \<noteq> [] \<and> fst spec \<notin> unwritable w1"
    using Cons.prems w1(2) by simp
  from Cons.IH[OF this] obtain w' where
    "create_all L width height specs w1 = Inr w'" "unwritable w' = unwritable w1" by blast
  then show ?case using w1 by (simp add: spec)
qed

section \<open>The claims\<close>

subsection \<open>The claims about the patcher\<close>

text \<open>
  Claim C1 fails on the code. It asks for an inserted line that starts with the anchor
  line's own leading whitespace. Lines 78 to 81 of the script take the width of that
  whitespace and write as many space characters. For a file whose anchor line is indented
  by one TAB, every condition of the claim holds, and the file written holds a texture
  line that starts with one space, not with the TAB.
\<close>

theorem tab_indented_anchor_gets_spaces:
  "readlines (''name: \"Earth\",\<newline>'' @ CHR 0x09 # ''rotation_period: 24.0,\<newline>'')
     = [''name: \"Earth\",\<newline>'', CHR 0x09 # ''rotation_period: 24.0,\<newline>'']
   \<and> name_match ''name: \"Earth\",\<newline>'' = Some ''Earth''
   \<and> rotation_match (CHR 0x09 # ''rotation_period: 24.0,\<newline>'')
   \<and> texture_of ''Earth'' = Some ''textures/celestial/planets/earth_2k.jpg''
   \<and> takeWhile isspace (CHR 0x09 # ''rotation_period: 24.0,\<newline>'') = [CHR 0x09]
   \<and> files (snd (process_ron_file ''in.ron'' ''out.ron''
          \<lparr>files = [''in.ron'' \<mapsto>
              ''name: \"Earth\",\<newline>'' @ CHR 0x09 # ''rotation_period: 24.0,\<newline>''],
           unwritable = {}, stdout = []\<rparr>)) ''out.ron''
       = Some (''name: \"Earth\",\<newline>'' @ CHR 0x09 # ''rotation_period: 24.0,\<newline>''
               @ '' texture: Some(\"textures/celestial/planets/earth_2k.jpg\"),\<newline>'')
   \<and> files (snd (process_ron_file ''in.ron'' ''out.ron''
          \<lparr>files = [''in.ron'' \<mapsto>
              ''name: \"Earth\",\<newline>'' @ CHR 0x09 # ''rotation_period: 24.0,\<newline>''],
           unwritable = {}, stdout = []\<rparr>)) ''out.ron''
       \<noteq> Some (''name: \"Earth\",\<newline>'' @ CHR 0x09 # ''rotation_period: 24.0,\<newline>''
               @ CHR 0x09 # ''texture: Some(\"textures/celestial/planets/earth_2k.jpg\"),\<newline>'')"
  by (simp add: process_ron_file_def writelines_def eval_defs)

text \<open>
  What the scan does at a mapped record, whatever the indentation: let a name line with
  captured name \<open>X\<close> be followed, with no name line and no \<open>rotation_period:\<close> line in
  between, by a \<open>rotation_period:\<close> line \<open>rl\<close>, and let \<open>X\<close> be a key of the mapping with
  path \<open>p\<close>. Then the list of output lines holds, directly after \<open>rl\<close>, the line made of
  as many space characters as \<open>rl\<close> has leading whitespace characters, the text
  \<open>texture: Some("p"),\<close> and a line feed, and goes on with the next input line. For an
  anchor indented by spaces only this is the line the claim asks for.
\<close>

theorem texture_line_directly_after_anchor:
  assumes "name_match nl = Some X"
    and "\<forall>l\<in>set mid. name_match l = None \<and> \<not> rotation_match l"
    and "rotation_match rl" and "m X = Some p"
  shows "\<exists>rest.
     output_lines (loop m init_state (pre @ nl # mid @ rl # post)) =
       output_lines (loop m init_state pre) @ nl # mid @
         [rl, replicate (length (takeWhile isspace rl)) CHR '' '' @ ''texture: Some(\"'' @ p @ ''\"),\<newline>'']
         @ rest
     \<and> (post = [] \<longrightarrow> rest = []) \<and> (post \<noteq> [] \<longrightarrow> rest \<noteq> [] \<and> hd rest = hd post)"
proof -
  let ?s = "loop m init_state pre"
  let ?t = "loop m ?s (nl # mid @ [rl])"
  have split: "pre @ nl # mid @ rl # post = pre @ (nl # mid @ [rl]) @ post" by simp
  have t: "output_lines ?t = output_lines ?s @ nl # mid @ [rl, texture_line rl p]"
    by (subst loop_record_mapped[where m = m and p = p and X = X]) (use assms in simp_all)
  obtain ys where ys: "output_lines (loop m ?t post) = output_lines ?t @ ys"
    "post = [] \<longrightarrow> ys = []" "post \<noteq> [] \<longrightarrow> ys \<noteq> [] \<and> hd ys = hd post"
    using loop_output_starts[of m ?t post] by blast
  have "output_lines (loop m init_state (pre @ nl # mid @ rl # post))
          = output_lines ?s @ nl # mid @ [rl, texture_line rl p] @ ys"
    unfolding split loop_append using ys(1) t by simp
  with ys(2,3) show ?thesis
    unfolding texture_line_eq by (intro exI[of _ ys]) simp
qed




text \<open>
  Claim C4. Over a record, a name line \<open>nl\<close> and the lines \<open>body\<close> before the next name line,
  the counter grows by at most one and at most one line is added to the output. When the
  record has a \<open>rotation_period:\<close> line, the body name is \<open>None\<close> once the first such line
  \<open>rl\<close> is processed, and the lines \<open>rest\<close> after it, further \<open>rotation_period:\<close> lines
  included, are copied with nothing inserted.
\<close>

theorem at_most_one_texture_per_record:
  assumes "name_match nl = Some X" and "\<forall>l\<in>set body. name_match l = None"
  shows "bodies_updated (loop m init_state (pre @ nl # body))
           \<le> bodies_updated (loop m init_state pre) + 1
       \<and> length (output_lines (loop m init_state (pre @ nl # body)))
           \<le> length (output_lines (loop m init_state pre)) + length (nl # body) + 1
       \<and> (\<forall>mid rl rest.
            body = mid @ rl # rest \<and> rotation_match rl \<and> (\<forall>l\<in>set mid. \<not> rotation_match l) \<longrightarrow>
              current_body_name (loop m init_state (pre @ nl # mid @ [rl])) = None
            \<and> output_lines (loop m init_state (pre @ nl # body))
                = output_lines (loop m init_state (pre @ nl # mid @ [rl])) @ rest
            \<and> bodies_updated (loop m init_state (pre @ nl # body))
                = bodies_updated (loop m init_state (pre @ nl # mid @ [rl])))"
proof -
  let ?s = "loop m init_state pre"
  let ?t = "loop_body m ?s nl"
  have t: "?t = ?s\<lparr>output_lines := output_lines ?s @ [nl],
                    current_body_name := Some X, texture_added := False\<rparr>"
    by (rule loop_body_name[OF assms(1)])
  have run: "loop m init_state (pre @ nl # body) = loop m ?t body"
    by (simp add: loop_append)
  have bt: "bodies_updated ?t = bodies_updated ?s"
    and lt: "length (output_lines ?t) = length (output_lines ?s) + 1"
    by (simp_all add: t)
  from loop_no_names_at_most_one[OF assms(2), of ?t m]
  have ab: "bodies_updated (loop m init_state (pre @ nl # body)) \<le> bodies_updated ?s + 1
      \<and> length (output_lines (loop m init_state (pre @ nl # body)))
           \<le> length (output_lines ?s) + length (nl # body) + 1"
    unfolding run bt lt by auto
  have c: "current_body_name (loop m init_state (pre @ nl # mid @ [rl])) = None
            \<and> output_lines (loop m init_state (pre @ nl # body))
                = output_lines (loop m init_state (pre @ nl # mid @ [rl])) @ rest
            \<and> bodies_updated (loop m init_state (pre @ nl # body))
                = bodies_updated (loop m init_state (pre @ nl # mid @ [rl]))"
    if h: "body = mid @ rl # rest" "rotation_match rl" "\<forall>l\<in>set mid. \<not> rotation_match l"
    for mid rl rest
  proof -
    have mid: "\<forall>l\<in>set mid. name_match l = None \<and> \<not> rotation_match l"
      and rest: "\<forall>l\<in>set rest. name_match l = None"
      using assms(2) h by auto
    let ?u = "loop m ?s (nl # mid @ [rl])"
    have u: "loop m init_state (pre @ nl # mid @ [rl]) = ?u"
      by (simp add: loop_append)
    have cur: "current_body_name ?u = None"
      by (rule loop_after_anchor[OF assms(1) mid h(2)])
    have sp: "pre @ nl # body = pre @ (nl # mid @ [rl]) @ rest"
      using h(1) by simp
    have "loop m init_state (pre @ nl # body) = loop m ?u rest"
      unfolding sp by (simp only: loop_append)
    also have "\<dots> = ?u\<lparr>output_lines := output_lines ?u @ rest\<rparr>"
      by (rule loop_no_cursor[OF rest cur])
    finally show ?thesis using cur unfolding u by simp
  qed
  show ?thesis using ab c by blast
qed

text \<open>
  The theorem for C4 at a record of \<open>Earth\<close> with two \<open>rotation_period:\<close> lines.
\<close>

theorem at_most_one_texture_per_record_witness:
  "name_match ''name: \"Earth\",\<newline>'' = Some ''Earth''
   \<and> name_match ''  rotation_period: 24.0,\<newline>'' = None
   \<and> name_match ''  rotation_period: 25.0,\<newline>'' = None
   \<and> rotation_match ''  rotation_period: 24.0,\<newline>''
   \<and> bodies_updated (loop texture_of init_state
         ([] @ ''name: \"Earth\",\<newline>'' #
            [''  rotation_period: 24.0,\<newline>'', ''  rotation_period: 25.0,\<newline>'']))
        \<le> bodies_updated (loop texture_of init_state []) + 1
   \<and> output_lines (loop texture_of init_state
         ([] @ ''name: \"Earth\",\<newline>'' #
            [''  rotation_period: 24.0,\<newline>'', ''  rotation_period: 25.0,\<newline>'']))
       = output_lines (loop texture_of init_state
           ([] @ ''name: \"Earth\",\<newline>'' # [] @ [''  rotation_period: 24.0,\<newline>'']))
         @ [''  rotation_period: 25.0,\<newline>'']"
proof -
  have h1: "name_match ''name: \"Earth\",\<newline>'' = Some ''Earth''"
    by (simp add: eval_defs)
  have h2a: "name_match ''  rotation_period: 24.0,\<newline>'' = None"
    and h2b: "name_match ''  rotation_period: 25.0,\<newline>'' = None"
    by (simp_all add: eval_defs)
  have h2: "\<forall>l\<in>set [''  rotation_period: 24.0,\<newline>'', ''  rotation_period: 25.0,\<newline>''].
          name_match l = None"
    using h2a h2b by simp
  have h3: "rotation_match ''  rotation_period: 24.0,\<newline>''"
    by (simp add: eval_defs)
  note t = at_most_one_texture_per_record[OF h1 h2, of texture_of "[]"]
  from t have a: "bodies_updated (loop texture_of init_state
         ([] @ ''name: \"Earth\",\<newline>'' #
            [''  rotation_period: 24.0,\<newline>'', ''  rotation_period: 25.0,\<newline>'']))
        \<le> bodies_updated (loop texture_of init_state []) + 1"
    by blast
  from t have "\<forall>mid rl rest.
      [''  rotation_period: 24.0,\<newline>'', ''  rotation_period: 25.0,\<newline>''] = mid @ rl # rest
        \<and> rotation_match rl \<and> (\<forall>l\<in>set mid. \<not> rotation_match l) \<longrightarrow>
      output_lines (loop texture_of init_state
         ([] @ ''name: \"Earth\",\<newline>'' #
            [''  rotation_period: 24.0,\<newline>'', ''  rotation_period: 25.0,\<newline>'']))
       = output_lines (loop texture_of init_state
           ([] @ ''name: \"Earth\",\<newline>'' # mid @ [rl])) @ rest"
    by blast
  from this[rule_format, of "[]" "''  rotation_period: 24.0,\<newline>''"
      "[''  rotation_period: 25.0,\<newline>'']"] h3
  have b: "output_lines (loop texture_of init_state
         ([] @ ''name: \"Earth\",\<newline>'' #
            [''  rotation_period: 24.0,\<newline>'', ''  rotation_period: 25.0,\<newline>'']))
       = output_lines (loop texture_of init_state
           ([] @ ''name: \"Earth\",\<newline>'' # [] @ [''  rotation_period: 24.0,\<newline>'']))
         @ [''  rotation_period: 25.0,\<newline>'']"
    by simp
  show ?thesis using h1 h2a h2b h3 a b by blast
qed

text \<open>
  Claim C6. A name line whose name is a key of the mapping, followed by lines \<open>body\<close> with no
  \<open>rotation_period:\<close> line up to the next name line or the end of the input: the record is
  copied as it is, nothing is printed for it, the counter keeps its value, and the output
  goes on with the next input line. The scan is a total function, so no error arises.
\<close>

theorem mapped_record_without_anchor_skipped:
  assumes "name_match nl = Some X" and "m X = Some p"
    and "\<forall>l\<in>set body. name_match l = None \<and> \<not> rotation_match l"
    and "post = [] \<or> name_match (hd post) \<noteq> None"
  shows "output_lines (loop m init_state (pre @ nl # body))
           = output_lines (loop m init_state pre) @ nl # body
       \<and> bodies_updated (loop m init_state (pre @ nl # body))
           = bodies_updated (loop m init_state pre)
       \<and> printed (loop m init_state (pre @ nl # body)) = printed (loop m init_state pre)
       \<and> (\<exists>ys. output_lines (loop m init_state (pre @ nl # body @ post))
                 = output_lines (loop m init_state pre) @ nl # body @ ys
              \<and> (post = [] \<longrightarrow> ys = []) \<and> (post \<noteq> [] \<longrightarrow> ys \<noteq> [] \<and> hd ys = hd post))"
proof -
  let ?s = "loop m init_state pre"
  let ?t = "loop_body m ?s nl"
  have t: "?t = ?s\<lparr>output_lines := output_lines ?s @ [nl],
                    current_body_name := Some X, texture_added := False\<rparr>"
    by (rule loop_body_name[OF assms(1)])
  have run: "loop m init_state (pre @ nl # body) = ?t\<lparr>output_lines := output_lines ?t @ body\<rparr>"
    by (simp add: loop_append loop_plain[OF assms(3)])
  obtain ys where ys:
    "output_lines (loop m (loop m init_state (pre @ nl # body)) post)
       = output_lines (loop m init_state (pre @ nl # body)) @ ys"
    "post = [] \<longrightarrow> ys = []" "post \<noteq> [] \<longrightarrow> ys \<noteq> [] \<and> hd ys = hd post"
    using loop_output_starts[of m "loop m init_state (pre @ nl # body)" post] by blast
  have sp: "pre @ nl # body @ post = (pre @ nl # body) @ post" by simp
  have "output_lines (loop m init_state (pre @ nl # body @ post))
          = output_lines ?s @ nl # body @ ys"
    unfolding sp loop_append[of m init_state "pre @ nl # body" post] ys(1)
    by (simp add: run t)
  with ys(2,3) show ?thesis by (auto simp: run t)
qed

text \<open>
  The theorem for C6 at a record of \<open>Earth\<close> cut short by the name line of \<open>Mars\<close>.
\<close>

theorem mapped_record_without_anchor_skipped_witness:
  "name_match ''name: \"Earth\",\<newline>'' = Some ''Earth''
   \<and> texture_of ''Earth'' = Some ''textures/celestial/planets/earth_2k.jpg''
   \<and> name_match ''  mass: 5.97e24,\<newline>'' = None
   \<and> \<not> rotation_match ''  mass: 5.97e24,\<newline>''
   \<and> name_match ''name: \"Mars\",\<newline>'' \<noteq> None
   \<and> output_lines (loop texture_of init_state
         ([] @ ''name: \"Earth\",\<newline>'' # [''  mass: 5.97e24,\<newline>'']))
       = output_lines (loop texture_of init_state [])
           @ ''name: \"Earth\",\<newline>'' # [''  mass: 5.97e24,\<newline>'']
   \<and> bodies_updated (loop texture_of init_state
         ([] @ ''name: \"Earth\",\<newline>'' # [''  mass: 5.97e24,\<newline>'']))
       = bodies_updated (loop texture_of init_state [])"
proof -
  have h1: "name_match ''name: \"Earth\",\<newline>'' = Some ''Earth''"
    by (simp add: eval_defs)
  have h2: "texture_of ''Earth'' = Some ''textures/celestial/planets/earth_2k.jpg''"
    by (simp add: eval_defs)
  have h3a: "name_match ''  mass: 5.97e24,\<newline>'' = None"
    and h3b: "\<not> rotation_match ''  mass: 5.97e24,\<newline>''"
    by (simp_all add: eval_defs)
  have h3: "\<forall>l\<in>set [''  mass: 5.97e24,\<newline>'']. name_match l = None \<and> \<not> rotation_match l"
    using h3a h3b by simp
  have h4a: "name_match ''name: \"Mars\",\<newline>'' \<noteq> None"
    by (simp add: eval_defs)
  have h4: "[''name: \"Mars\",\<newline>''] = [] \<or> name_match (hd [''name: \"Mars\",\<newline>'']) \<noteq> None"
    using h4a by simp
  note t = mapped_record_without_anchor_skipped[where m = texture_of and X = "''Earth''"
        and p = "''textures/celestial/planets/earth_2k.jpg''" and pre = "[]", OF h1 h2 h3 h4]
  from t have a: "output_lines (loop texture_of init_state
         ([] @ ''name: \"Earth\",\<newline>'' # [''  mass: 5.97e24,\<newline>'']))
       = output_lines (loop texture_of init_state [])
           @ ''name: \"Earth\",\<newline>'' # [''  mass: 5.97e24,\<newline>'']"
    by blast
  from t have b: "bodies_updated (loop texture_of init_state
         ([] @ ''name: \"Earth\",\<newline>'' # [''  mass: 5.97e24,\<newline>'']))
       = bodies_updated (loop texture_of init_state [])"
    by blast
  show ?thesis using h1 h2 h3a h3b h4a a b by blast
qed

text \<open>
  Claim C10. A line of whitespace, \<open>name:\<close>, whitespace and two double quotes in a row does
  not match the name pattern, whatever follows; the iteration copies it and leaves the body
  name, the flag and the counter as they are.
\<close>

theorem empty_quoted_name_not_recognised:
  assumes "\<forall>c\<in>set ws1. isspace c" and "\<forall>c\<in>set ws2. isspace c"
  shows "name_match (ws1 @ ''name:'' @ ws2 @ [CHR 0x22, CHR 0x22] @ rest) = None
       \<and> loop_body m s (ws1 @ ''name:'' @ ws2 @ [CHR 0x22, CHR 0x22] @ rest)
           = s\<lparr>output_lines := output_lines s @ [ws1 @ ''name:'' @ ws2 @ [CHR 0x22, CHR 0x22] @ rest]\<rparr>"
  using name_match_empty_quotes[OF assms, of rest]
    rotation_match_name_prefix[OF assms(1), of "ws2 @ [CHR 0x22, CHR 0x22] @ rest"]
  by (simp add: loop_body_plain)

text \<open>
  The theorem for C10 at the line \<open>  name: "",\<close>.
\<close>

theorem empty_quoted_name_not_recognised_witness:
  "isspace CHR '' ''
   \<and> name_match (''  '' @ ''name:'' @ '' '' @ [CHR 0x22, CHR 0x22] @ '',\<newline>'') = None
   \<and> loop_body texture_of init_state (''  '' @ ''name:'' @ '' '' @ [CHR 0x22, CHR 0x22] @ '',\<newline>'')
       = init_state\<lparr>output_lines := output_lines init_state
           @ [''  '' @ ''name:'' @ '' '' @ [CHR 0x22, CHR 0x22] @ '',\<newline>'']\<rparr>"
proof -
  have h0: "isspace CHR '' ''" by (simp add: isspace_def)
  have h1: "\<forall>c\<in>set ''  ''. isspace c" using h0 by simp
  have h2: "\<forall>c\<in>set '' ''. isspace c" using h0 by simp
  show ?thesis
    using empty_quoted_name_not_recognised[OF h1 h2, of "'',\<newline>''" texture_of init_state] h0
    by blast
qed

text \<open>
  Claim C2, as the code has it. When the input file exists and the output can be written,
  \<open>process_ron_file\<close> evaluates to \<open>None\<close>. The file it writes is the input lines, each
  followed by nothing or by one texture line; with \<open>n\<close> the number of texture lines, it
  prints \<open>n\<close> messages \<open>Added texture for: ...\<close> and then
  \<open>Updated n celestial bodies with texture paths\<close>: the count is printed, not returned.
\<close>

theorem process_ron_file_returns_none_prints_count:
  assumes "files w input_file = Some text" and "output_file \<notin> unwritable w"
  shows "fst (process_ron_file input_file output_file w) = Inr PyNone
       \<and> (\<exists>n inss added.
            length inss = length (readlines text)
          \<and> list_all2 (\<lambda>l ins. ins = [] \<or> (rotation_match l \<and>
                (\<exists>k p. texture_of k = Some p \<and> ins = [texture_line l p]))) (readlines text) inss
          \<and> n = length (concat inss)
          \<and> files (snd (process_ron_file input_file output_file w)) output_file
              = Some (writelines (concat (map2 (#) (readlines text) inss)))
          \<and> length added = n
          \<and> stdout (snd (process_ron_file input_file output_file w))
              = stdout w @ added @
                [''\<newline>Updated '' @ str_nat n @ '' celestial bodies with texture paths'',
                 ''Output written to: '' @ output_file])"
proof -
  let ?s = "loop texture_of init_state (readlines text)"
  obtain inss where inss: "length inss = length (readlines text)"
    "output_lines ?s = output_lines init_state @ concat (map2 (#) (readlines text) inss)"
    "list_all2 (\<lambda>l ins. ins = [] \<or> (rotation_match l \<and>
        (\<exists>k p. texture_of k = Some p \<and> ins = [texture_line l p]))) (readlines text) inss"
    "bodies_updated ?s = bodies_updated init_state + length (concat inss)"
    using loop_emits[of "readlines text" texture_of init_state] by blast
  have out: "output_lines ?s = concat (map2 (#) (readlines text) inss)"
    and n: "bodies_updated ?s = length (concat inss)"
    using inss(2,4) by (simp_all add: init_state_def)
  have pr: "length (printed ?s) = length (concat inss)"
    using loop_printed_count[of texture_of init_state "readlines text"] n
    by (simp add: init_state_def)
  note r = process_ron_file_ok[OF assms]
  have a: "fst (process_ron_file input_file output_file w) = Inr PyNone"
    by (simp add: r)
  have f: "files (snd (process_ron_file input_file output_file w)) output_file
              = Some (writelines (concat (map2 (#) (readlines text) inss)))"
    by (simp add: r out)
  have p: "stdout (snd (process_ron_file input_file output_file w))
              = stdout w @ printed ?s @
                [''\<newline>Updated '' @ str_nat (length (concat inss)) @ '' celestial bodies with texture paths'',
                 ''Output written to: '' @ output_file]"
    by (simp add: r n)
  show ?thesis using a inss(1,3) f pr p by blast
qed

text \<open>
  The theorem for C2 at a file holding the record of \<open>Io\<close>.
\<close>

theorem process_ron_file_returns_none_prints_count_witness:
  "files \<lparr>files = [''in.ron'' \<mapsto> ''name: \"Io\",\<newline>  rotation_period: 1.77,\<newline>''],
           unwritable = {}, stdout = []\<rparr> ''in.ron''
     = Some ''name: \"Io\",\<newline>  rotation_period: 1.77,\<newline>''
   \<and> ''out.ron'' \<notin> unwritable
         \<lparr>files = [''in.ron'' \<mapsto> ''name: \"Io\",\<newline>  rotation_period: 1.77,\<newline>''],
          unwritable = {}, stdout = []\<rparr>
   \<and> fst (process_ron_file ''in.ron'' ''out.ron''
          \<lparr>files = [''in.ron'' \<mapsto> ''name: \"Io\",\<newline>  rotation_period: 1.77,\<newline>''],
           unwritable = {}, stdout = []\<rparr>) = Inr PyNone"
proof -
  let ?w = "\<lparr>files = [''in.ron'' \<mapsto> ''name: \"Io\",\<newline>  rotation_period: 1.77,\<newline>''],
           unwritable = {}, stdout = []\<rparr>"
  have h1: "files ?w ''in.ron'' = Some ''name: \"Io\",\<newline>  rotation_period: 1.77,\<newline>''"
    by simp
  have h2: "''out.ron'' \<notin> unwritable ?w" by simp
  from process_ron_file_returns_none_prints_count[OF h1 h2]
  have "fst (process_ron_file ''in.ron'' ''out.ron'' ?w) = Inr PyNone" by blast
  with h1 h2 show ?thesis by blast
qed

text \<open>
  Claim C2 as it is written asks for the count as the returned value. On the record of
  \<open>Io\<close> one texture line is inserted and the counter is 1, and the call evaluates to
  \<open>None\<close>, which is not the integer 1.
\<close>

theorem process_ron_file_returns_none_not_count:
  "fst (process_ron_file ''in.ron'' ''out.ron''
          \<lparr>files = [''in.ron'' \<mapsto> ''name: \"Io\",\<newline>  rotation_period: 1.77,\<newline>''],
           unwritable = {}, stdout = []\<rparr>) = Inr PyNone
   \<and> output_lines (loop texture_of init_state
         (readlines ''name: \"Io\",\<newline>  rotation_period: 1.77,\<newline>''))
       = [''name: \"Io\",\<newline>'', ''  rotation_period: 1.77,\<newline>'',
          ''  texture: Some(\"textures/celestial/moons/io_1k.jpg\"),\<newline>'']
   \<and> bodies_updated (loop texture_of init_state
         (readlines ''name: \"Io\",\<newline>  rotation_period: 1.77,\<newline>'')) = 1
   \<and> stdout (snd (process_ron_file ''in.ron'' ''out.ron''
          \<lparr>files = [''in.ron'' \<mapsto> ''name: \"Io\",\<newline>  rotation_period: 1.77,\<newline>''],
           unwritable = {}, stdout = []\<rparr>))
       = [''Added texture for: Io'', ''\<newline>Updated 1 celestial bodies with texture paths'',
          ''Output written to: out.ron'']
   \<and> fst (process_ron_file ''in.ron'' ''out.ron''
          \<lparr>files = [''in.ron'' \<mapsto> ''name: \"Io\",\<newline>  rotation_period: 1.77,\<newline>''],
           unwritable = {}, stdout = []\<rparr>) \<noteq> Inr (PyInt 1)"
  by (simp add: process_ron_file_def eval_defs str_nat.simps digit_char_def)




subsection \<open>The claims about the generator\<close>

text \<open>
  Claim C7. Let \<open>randint\<close> keep its documented range and let the base colour
  \<open>(cr, cg, cb)\<close> be an RGB colour. In \<open>create_rocky_texture\<close> the noise loop draws, from the
  generator seeded with \<open>seed\<close>, one delta per pixel of the \<open>width * height\<close> raster, in
  row-major order; every delta lies in \<open>[-30, 30]\<close>; the pixel becomes the base colour with
  that one delta added to each of its three channels, each clamped by
  \<open>max 0 (min 255 ...)\<close>, so every channel lies in \<open>[0, 255]\<close>; and the image handed to the
  blur is exactly this raster.
\<close>

theorem noise_delta_added_and_clamped:
  assumes "randint_in_range L"
    and "0 \<le> cr \<and> cr \<le> 255 \<and> 0 \<le> cg \<and> cg \<le> 255 \<and> 0 \<le> cb \<and> cb \<le> 255"
  shows "\<exists>ns. ns = fst (draws L (width * height) (rng_seed L seed g0))
     \<and> length ns = width * height
     \<and> (\<forall>n\<in>set ns. - 30 \<le> n \<and> n \<le> 30)
     \<and> fst (noise_rows L width height (replicate (width * height) (cr, cg, cb), rng_seed L seed g0))
         = map (\<lambda>n. (max 0 (min 255 (cr + n)), max 0 (min 255 (cg + n)), max 0 (min 255 (cb + n)))) ns
     \<and> (\<forall>(r, g, b)\<in>set (fst (noise_rows L width height
               (replicate (width * height) (cr, cg, cb), rng_seed L seed g0))).
           0 \<le> r \<and> r \<le> 255 \<and> 0 \<le> g \<and> g \<le> 255 \<and> 0 \<le> b \<and> b \<le> 255)
     \<and> fst (create_rocky_texture L width height (cr, cg, cb) seed g0)
         = gaussian_blur L \<lparr>img_width = width, img_height = height,
             img_pixels = map (\<lambda>n. (max 0 (min 255 (cr + n)), max 0 (min 255 (cg + n)),
                                      max 0 (min 255 (cb + n)))) ns\<rparr>"
proof -
  let ?ns = "fst (draws L (width * height) (rng_seed L seed g0))"
  have f: "add_noise (cr, cg, cb) = (\<lambda>n. (max 0 (min 255 (cr + n)), max 0 (min 255 (cg + n)),
                                      max 0 (min 255 (cb + n))))"
    by (rule ext) (simp add: add_noise_def)
  have a: "length ?ns = width * height" by (rule draws_length)
  have b: "\<forall>n\<in>set ?ns. - 30 \<le> n \<and> n \<le> 30" by (rule draws_in_range[OF assms(1)])
  have c: "fst (noise_rows L width height (replicate (width * height) (cr, cg, cb), rng_seed L seed g0))
         = map (\<lambda>n. (max 0 (min 255 (cr + n)), max 0 (min 255 (cg + n)), max 0 (min 255 (cb + n)))) ?ns"
    by (simp add: noise_rows_result f)
  have d: "\<forall>(r, g, b)\<in>set (fst (noise_rows L width height
               (replicate (width * height) (cr, cg, cb), rng_seed L seed g0))).
           0 \<le> r \<and> r \<le> 255 \<and> 0 \<le> g \<and> g \<le> 255 \<and> 0 \<le> b \<and> b \<le> 255"
    unfolding c by auto
  have e: "fst (create_rocky_texture L width height (cr, cg, cb) seed g0)
         = gaussian_blur L \<lparr>img_width = width, img_height = height,
             img_pixels = map (\<lambda>n. (max 0 (min 255 (cr + n)), max 0 (min 255 (cg + n)),
                                      max 0 (min 255 (cb + n)))) ?ns\<rparr>"
    by (simp add: create_rocky_texture_eq f)
  show ?thesis using a b c d e by blast
qed

text \<open>
  The theorem for C7 on a raster of two pixels with the colour of Io and seed 7: the deltas
  are \<open>-23\<close> and \<open>-22\<close>.
\<close>

theorem noise_delta_added_and_clamped_witness:
  "randint_in_range counter_library
   \<and> (\<exists>ns. ns = fst (draws counter_library (2 * 1) (rng_seed counter_library 7 0))
        \<and> length ns = 2 * 1
        \<and> (\<forall>n\<in>set ns. - 30 \<le> n \<and> n \<le> 30)
        \<and> fst (create_rocky_texture counter_library 2 1 (180, 150, 100) 7 0)
            = gaussian_blur counter_library \<lparr>img_width = 2, img_height = 1,
                img_pixels = map (\<lambda>n. (max 0 (min 255 (180 + n)), max 0 (min 255 (150 + n)),
                                         max 0 (min 255 (100 + n)))) ns\<rparr>)
   \<and> fst (draws counter_library (2 * 1) (rng_seed counter_library 7 0)) = [- 23, - 22]"
proof -
  have h2: "(0::int) \<le> 180 \<and> (180::int) \<le> 255 \<and> (0::int) \<le> 150 \<and> (150::int) \<le> 255
       \<and> (0::int) \<le> 100 \<and> (100::int) \<le> 255" by simp
  note t = noise_delta_added_and_clamped[OF counter_library_randint_in_range h2,
      of 2 1 7 0]
  have d: "fst (draws counter_library (2 * 1) (rng_seed counter_library 7 0)) = [- 23, - 22]"
    by (simp add: counter_library_def numeral_2_eq_2)
  from t have "\<exists>ns. ns = fst (draws counter_library (2 * 1) (rng_seed counter_library 7 0))
        \<and> length ns = 2 * 1
        \<and> (\<forall>n\<in>set ns. - 30 \<le> n \<and> n \<le> 30)
        \<and> fst (create_rocky_texture counter_library 2 1 (180, 150, 100) 7 0)
            = gaussian_blur counter_library \<lparr>img_width = 2, img_height = 1,
                img_pixels = map (\<lambda>n. (max 0 (min 255 (180 + n)), max 0 (min 255 (150 + n)),
                                         max 0 (min 255 (100 + n)))) ns\<rparr>"
    by blast
  with counter_library_randint_in_range d show ?thesis by blast
qed

text \<open>
  Claim C8. Let seeding fix the generator state. A second call of
  \<open>create_rocky_texture\<close> with the same width, height, base colour and seed, made in the
  state the first call left behind, returns the same image. Two calls of
  \<open>create_moon_texture\<close> with the same name, one after the other in the same interpreter
  (the same \<open>py_hash\<close>), write the same bytes.
\<close>

theorem same_arguments_same_raster:
  assumes "seed_resets L"
  shows "fst (create_rocky_texture L width height base seed
                (snd (create_rocky_texture L width height base seed g)))
           = fst (create_rocky_texture L width height base seed g)
       \<and> (create_moon_texture L path1 width height base name w = Inr w1
            \<and> create_moon_texture L path2 width height base name w1 = Inr w2
          \<longrightarrow> files w2 path2 = files w1 path1)"
proof -
  have a: "fst (create_rocky_texture L width height base seed
                (snd (create_rocky_texture L width height base seed g)))
           = fst (create_rocky_texture L width height base seed g)"
    using create_rocky_texture_state_free[OF assms] by metis
  have b: "files w2 path2 = files w1 path1"
    if h: "create_moon_texture L path1 width height base name w = Inr w1"
      "create_moon_texture L path2 width height base name w1 = Inr w2"
  proof -
    have "create_rocky_texture L width height base (py_hash L name) (rng w1)
            = create_rocky_texture L width height base (py_hash L name) (rng w)"
      by (rule create_rocky_texture_state_free[OF assms])
    then show ?thesis
      using create_moon_texture_ok[OF h(1)] create_moon_texture_ok[OF h(2)] by simp
  qed
  show ?thesis using a b by blast
qed

text \<open>
  The theorem for C8 with the stand-in library, for the texture of Io generated twice.
\<close>

theorem same_arguments_same_raster_witness:
  "seed_resets counter_library
   \<and> fst (create_rocky_texture counter_library 2 1 (180, 150, 100) (py_hash counter_library ''Io'')
           (snd (create_rocky_texture counter_library 2 1 (180, 150, 100)
                   (py_hash counter_library ''Io'') 0)))
       = fst (create_rocky_texture counter_library 2 1 (180, 150, 100)
                (py_hash counter_library ''Io'') 0)
   \<and> (\<exists>w1 w2.
        create_moon_texture counter_library ''celestial/moons/io_1k.jpg'' 2 1 (180, 150, 100) ''Io''
          \<lparr>files = Map.empty, unwritable = {}, stdout = [], rng = 0, dirs = {}\<rparr> = Inr w1
      \<and> create_moon_texture counter_library ''celestial/moons/io_copy.jpg'' 2 1 (180, 150, 100) ''Io''
          w1 = Inr w2
      \<and> files w2 ''celestial/moons/io_copy.jpg'' = files w1 ''celestial/moons/io_1k.jpg'')"
proof -
  let ?w = "\<lparr>files = Map.empty, unwritable = {}, stdout = [], rng = 0::nat, dirs = {}\<rparr>"
  have d1: "dirname ''celestial/moons/io_1k.jpg'' \<noteq> []"
    and d2: "dirname ''celestial/moons/io_copy.jpg'' \<noteq> []"
    by (simp_all add: dirname_def)
  have u1: "''celestial/moons/io_1k.jpg'' \<notin> unwritable ?w" by simp
  from create_moon_texture_succeeds[OF d1 u1, of counter_library 2 1 "(180, 150, 100)" "''Io''"]
  obtain w1 where w1: "create_moon_texture counter_library ''celestial/moons/io_1k.jpg'' 2 1
      (180, 150, 100) ''Io'' ?w = Inr w1" "unwritable w1 = unwritable ?w" by blast
  have u2: "''celestial/moons/io_copy.jpg'' \<notin> unwritable w1" using w1(2) by simp
  from create_moon_texture_succeeds[OF d2 u2, of counter_library 2 1 "(180, 150, 100)" "''Io''"]
  obtain w2 where w2: "create_moon_texture counter_library ''celestial/moons/io_copy.jpg'' 2 1
      (180, 150, 100) ''Io'' w1 = Inr w2" by blast
  note t = same_arguments_same_raster[OF counter_library_seed_resets,
      of 2 1 "(180, 150, 100)" "py_hash counter_library ''Io''" 0
         "''celestial/moons/io_1k.jpg''" "''Io''" ?w w1 "''celestial/moons/io_copy.jpg''" w2]
  from t w1(1) w2 have f: "files w2 ''celestial/moons/io_copy.jpg'' = files w1 ''celestial/moons/io_1k.jpg''"
    by blast
  from t have a: "fst (create_rocky_texture counter_library 2 1 (180, 150, 100) (py_hash counter_library ''Io'')
           (snd (create_rocky_texture counter_library 2 1 (180, 150, 100)
                   (py_hash counter_library ''Io'') 0)))
       = fst (create_rocky_texture counter_library 2 1 (180, 150, 100)
                (py_hash counter_library ''Io'') 0)"
    by blast
  show ?thesis using counter_library_seed_resets a w1(1) w2 f by blast
qed

text \<open>
  Claim C9. Let seeding fix the generator state. The image \<open>create_rocky_texture\<close> returns
  does not depend on the generator state it is called in. Hence in a loop over texture
  specs that runs to its end, the file written for a spec is the encoding of
  \<open>create_rocky_texture\<close> on that spec's own arguments from any generator state \<open>g\<close>,
  whatever specs come before or after it and whatever state the loop started in, as long as
  no later spec writes to the same path.
\<close>

theorem raster_independent_of_other_specs:
  assumes "seed_resets L"
  shows "fst (create_rocky_texture L width height base seed g)
           = fst (create_rocky_texture L width height base seed g')
       \<and> (create_all L width height (before @ (path, name, color) # after) w = Inr w'
            \<and> path \<notin> fst ` set after
          \<longrightarrow> files w' path
                = Some (jpeg_encode L (fst (create_rocky_texture L width height color (py_hash L name) g))))"
proof -
  have a: "fst (create_rocky_texture L width height base seed g)
           = fst (create_rocky_texture L width height base seed g')"
    using create_rocky_texture_state_free[OF assms] by metis
  have b: "files w' path
                = Some (jpeg_encode L (fst (create_rocky_texture L width height color (py_hash L name) g)))"
    if h: "create_all L width height (before @ (path, name, color) # after) w = Inr w'"
      "path \<notin> fst ` set after"
  proof -
    from h(1) obtain w1 w2 where
      w1: "create_all L width height before w = Inr w1"
      and w2: "create_moon_texture L path width height color name w1 = Inr w2"
      and w3: "create_all L width height after w2 = Inr w'"
      by (auto simp: create_all_append split: sum.splits)
    have "files w' path = files w2 path"
      by (rule create_all_files_other[OF w3 h(2)])
    also have "\<dots> = Some (jpeg_encode L
        (fst (create_rocky_texture L width height color (py_hash L name) (rng w1))))"
      using create_moon_texture_ok[OF w2] by simp
    also have "create_rocky_texture L width height color (py_hash L name) (rng w1)
        = create_rocky_texture L width height color (py_hash L name) g"
      by (rule create_rocky_texture_state_free[OF assms])
    finally show ?thesis .
  qed
  show ?thesis using a b by blast
qed

text \<open>
  The theorem for C9 with the stand-in library, for the spec of Europa between two others.
\<close>

theorem raster_independent_of_other_specs_witness:
  "seed_resets counter_library
   \<and> (\<exists>w'. create_all counter_library 2 1
              ([(''celestial/moons/io_1k.jpg'', ''Io'', (180, 150, 100))]
                 @ (''celestial/moons/europa_1k.jpg'', ''Europa'', (200, 190, 180))
                 # [(''celestial/moons/titan_1k.jpg'', ''Titan'', (180, 140, 100))])
              \<lparr>files = Map.empty, unwritable = {}, stdout = [], rng = 5, dirs = {}\<rparr> = Inr w'
          \<and> files w' ''celestial/moons/europa_1k.jpg''
              = Some (jpeg_encode counter_library
                  (fst (create_rocky_texture counter_library 2 1 (200, 190, 180)
                          (py_hash counter_library ''Europa'') 0))))"
proof -
  let ?w = "\<lparr>files = Map.empty, unwritable = {}, stdout = [], rng = 5::nat, dirs = {}\<rparr>"
  let ?specs = "[(''celestial/moons/io_1k.jpg'', ''Io'', (180, 150, 100))]
                 @ (''celestial/moons/europa_1k.jpg'', ''Europa'', (200, 190, 180))
                 # [(''celestial/moons/titan_1k.jpg'', ''Titan'', (180, 140, 100))]"
  have "\<forall>spec\<in>set ?specs. dirname (fst spec) \<noteq> [] \<and> fst spec \<notin> unwritable ?w"
    by (simp add: dirname_def)
  from create_all_succeeds[OF this, of counter_library 2 1]
  obtain w' where w': "create_all counter_library 2 1 ?specs ?w = Inr w'" by blast
  have other: "''celestial/moons/europa_1k.jpg''
       \<notin> fst ` set [(''celestial/moons/titan_1k.jpg'', ''Titan'', (180::int, 140::int, 100::int))]"
    by simp
  note t = raster_independent_of_other_specs[OF counter_library_seed_resets,
      where width = 2 and height = 1 and path = "''celestial/moons/europa_1k.jpg''"
        and name = "''Europa''" and color = "(200, 190, 180)"
        and before = "[(''celestial/moons/io_1k.jpg'', ''Io'', (180, 150, 100))]"
        and after = "[(''celestial/moons/titan_1k.jpg'', ''Titan'', (180, 140, 100))]"
        and w = ?w and w' = w' and g = 0]
  from t w' other have "files w' ''celestial/moons/europa_1k.jpg''
              = Some (jpeg_encode counter_library
                  (fst (create_rocky_texture counter_library 2 1 (200, 190, 180)
                          (py_hash counter_library ''Europa'') 0)))"
    by blast
  with counter_library_seed_resets w' show ?thesis by blast
qed

end
